theory Spec2Isabelle
  imports Complex_Main
begin

section \<open>The ROI analysis engine of \<^verbatim>\<open>src/src/core/sync_analyzer.py\<close>\<close>

text \<open>
  Python floats are idealised as real numbers: rounding, overflow, infinities and NaN are
  not represented.  A division whose divisor is zero is therefore only meaningful in the
  model where the source raises (a Python float divided by \<open>0.0\<close>); where numpy would
  produce \<open>inf\<close> or \<open>nan\<close> the statements below carry a hypothesis that excludes the
  case, or do not depend on the value.

  Every method of \<^verbatim>\<open>SyncAnalyzer\<close> is a function from the analyzer object before the
  call to an outcome (\<open>Inl\<close> an exception, \<open>Inr\<close> the returned value) paired with the
  analyzer object after the call.
\<close>

subsection \<open>Exceptions\<close>

datatype error =
    InvalidRange       \<comment> \<open>the \<^verbatim>\<open>ValueError\<close> raised by \<^verbatim>\<open>set_roi\<close>\<close>
  | NoRoiConfigured    \<comment> \<open>the \<^verbatim>\<open>ValueError\<close> raised when the ROI bounds are unset\<close>
  | EmptyArray         \<comment> \<open>the \<^verbatim>\<open>ValueError\<close> numpy raises on a zero-size array\<close>
  | ZeroDivisionError  \<comment> \<open>division of Python numbers by zero\<close>
  | LibraryError       \<comment> \<open>any exception raised inside a scipy routine\<close>

subsection \<open>Data model\<close>

record SyncAnalyzer =
  sampling_rate :: real
  roi_start :: "real option"
  roi_end :: "real option"

record ROIResult =
  start_s :: real
  end_s :: real
  n_samples :: nat
  fs :: real
  hr_bpm :: "real option"
  rr_mean_s :: "real option"
  rr_sd_s :: "real option"
  ptt_mean_s :: "real option"
  ptt_sd_s :: "real option"
  delay_xcorr_s :: "real option"
  sqi :: "string \<rightharpoonup> real"

type_synonym 'a outcome = "(error + 'a) \<times> SyncAnalyzer"

text \<open>Sequencing of two calls on the same object: an exception of the first call ends
  the sequence and is propagated, with the object as the first call left it.\<close>

definition and_then :: "'a outcome \<Rightarrow> ('a \<Rightarrow> SyncAnalyzer \<Rightarrow> 'b outcome) \<Rightarrow> 'b outcome" where
  "and_then m f = (case m of (Inl e, self') \<Rightarrow> (Inl e, self') | (Inr v, self') \<Rightarrow> f v self')"

text \<open>The scipy routines the engine calls.  Their code is not part of the repository, so
  they are parameters of the model; each may raise.\<close>

record scipy_signal =
  sp_detrend :: "real list \<Rightarrow> error + real list"
  butter_filtfilt :: "nat \<Rightarrow> real \<Rightarrow> real \<Rightarrow> real list \<Rightarrow> error + real list"
    \<comment> \<open>\<^verbatim>\<open>filtfilt(*butter(order, [lowc, highc], btype="band"), x)\<close>\<close>
  find_peaks :: "real list \<Rightarrow> int \<Rightarrow> real \<Rightarrow> error + int list"
    \<comment> \<open>\<^verbatim>\<open>find_peaks(z, distance=d, prominence=p)[0]\<close>\<close>
  resample_poly :: "real list \<Rightarrow> int \<Rightarrow> int \<Rightarrow> error + real list"

subsection \<open>Python and numpy primitives\<close>

definition py_int :: "real \<Rightarrow> int" where
  \<comment> \<open>\<^verbatim>\<open>int(x)\<close> on a float truncates towards zero\<close>
  "py_int x = (if 0 \<le> x then \<lfloor>x\<rfloor> else \<lceil>x\<rceil>)"

definition py_round :: "real \<Rightarrow> int" where
  \<comment> \<open>\<^verbatim>\<open>round(x)\<close> rounds to the nearest integer, a tie to the even one\<close>
  "py_round x =
     (let f = \<lfloor>x\<rfloor>; d = x - of_int f
      in if d < 1 / 2 then f else if 1 / 2 < d then f + 1 else if even f then f else f + 1)"

definition py_slice :: "'a list \<Rightarrow> int \<Rightarrow> int \<Rightarrow> 'a list" where
  \<comment> \<open>\<^verbatim>\<open>xs[i:j]\<close>: a negative bound counts from the end, then both are clipped to \<open>[0, len]\<close>\<close>
  "py_slice xs i j =
     (let n = int (length xs);
          lo = (if i < 0 then max (n + i) 0 else min i n);
          hi = (if j < 0 then max (n + j) 0 else min j n)
      in take (nat (hi - lo)) (drop (nat lo) xs))"

definition np_mean :: "real list \<Rightarrow> real" where
  "np_mean xs = sum_list xs / real (length xs)"

definition np_var :: "real list \<Rightarrow> real" where
  "np_var xs = np_mean (map (\<lambda>v. (v - np_mean xs)\<^sup>2) xs)"

definition np_std :: "real list \<Rightarrow> real" where
  "np_std xs = sqrt (np_var xs)"

definition np_diff :: "'a::minus list \<Rightarrow> 'a list" where
  \<comment> \<open>\<^verbatim>\<open>out[i] = xs[i+1] - xs[i]\<close>\<close>
  "np_diff xs = map2 (\<lambda>a b. b - a) xs (tl xs)"

definition np_mean_bool :: "bool list \<Rightarrow> real" where
  \<comment> \<open>the mean of a boolean array counts \<^verbatim>\<open>True\<close> as 1 and \<^verbatim>\<open>False\<close> as 0\<close>
  "np_mean_bool bs = np_mean (map (\<lambda>b. if b then 1 else 0) bs)"

definition np_correlate_full :: "real list \<Rightarrow> real list \<Rightarrow> error + real list" where
  \<comment> \<open>\<^verbatim>\<open>np.correlate(a, v, mode='full')\<close>: \<open>c[i] = \<Sum>n. a[n + i - (len v - 1)] * v[n]\<close>\<close>
  "np_correlate_full a v =
     (if a = [] \<or> v = [] then Inl EmptyArray
      else Inr (map (\<lambda>i. \<Sum>n \<leftarrow> [0..<length v].
                       (let m = int n + int i - (int (length v) - 1)
                        in if 0 \<le> m \<and> m < int (length a) then a ! nat m * v ! n else 0))
                  [0..<length a + length v - 1]))"

fun argmax_from :: "real list \<Rightarrow> nat \<Rightarrow> nat \<Rightarrow> real \<Rightarrow> nat" where
  "argmax_from [] i best bv = best"
| "argmax_from (x # xs) i best bv =
     (if bv < x then argmax_from xs (i + 1) i x else argmax_from xs (i + 1) best bv)"

definition np_argmax :: "real list \<Rightarrow> error + nat" where
  \<comment> \<open>index of the first occurrence of the maximum\<close>
  "np_argmax xs = (case xs of [] \<Rightarrow> Inl EmptyArray | x # rest \<Rightarrow> Inr (argmax_from rest 1 0 x))"

definition np_max :: "real list \<Rightarrow> error + real" where
  "np_max xs = (case xs of [] \<Rightarrow> Inl EmptyArray | x # rest \<Rightarrow> Inr (fold max rest x))"

definition np_min :: "real list \<Rightarrow> error + real" where
  "np_min xs = (case xs of [] \<Rightarrow> Inl EmptyArray | x # rest \<Rightarrow> Inr (fold min rest x))"

subsection \<open>Configuration\<close>

definition init :: "real \<Rightarrow> SyncAnalyzer" where
  "init rate = \<lparr>sampling_rate = rate, roi_start = None, roi_end = None\<rparr>"

definition set_sampling_rate :: "real \<Rightarrow> SyncAnalyzer \<Rightarrow> unit outcome" where
  "set_sampling_rate rate self = (Inr (), self\<lparr>sampling_rate := rate\<rparr>)"

definition set_roi :: "real \<Rightarrow> real \<Rightarrow> SyncAnalyzer \<Rightarrow> unit outcome" where
  "set_roi start_time end_time self =
     (if end_time \<le> start_time then (Inl InvalidRange, self)
      else (Inr (), self\<lparr>roi_start := Some start_time, roi_end := Some end_time\<rparr>))"

subsection \<open>Basic utilities\<close>

definition extract_roi :: "'a list \<Rightarrow> SyncAnalyzer \<Rightarrow> 'a list outcome" where
  "extract_roi signal self =
     (case (roi_start self, roi_end self) of
        (Some rs, Some re) \<Rightarrow>
          (let start_idx = py_int (rs * sampling_rate self);
               end_idx = py_int (re * sampling_rate self);
               start_idx = max 0 start_idx;
               end_idx = min (int (length signal)) end_idx
           in (Inr (py_slice signal start_idx end_idx), self))
      | _ \<Rightarrow> (Inl NoRoiConfigured, self))"

definition align_signals ::
  "real list \<Rightarrow> real list \<Rightarrow> SyncAnalyzer \<Rightarrow> (real list \<times> real list) outcome" where
  "align_signals ppg ecg self =
     (let min_len = min (length ppg) (length ecg)
      in (Inr (take min_len ppg, take min_len ecg), self))"

subsection \<open>Filters\<close>

definition bandpass ::
  "scipy_signal \<Rightarrow> real list \<Rightarrow> real \<Rightarrow> real \<Rightarrow> nat \<Rightarrow> SyncAnalyzer \<Rightarrow> real list outcome" where
  \<comment> \<open>\<^verbatim>\<open>low / nyq\<close> divides two Python floats, which raises when \<^verbatim>\<open>nyq\<close> is zero\<close>
  "bandpass L x low high order self =
     (let nyq = 0.5 * sampling_rate self
      in if nyq = 0 then (Inl ZeroDivisionError, self)
         else (let lowc = low / nyq; highc = high / nyq
               in (butter_filtfilt L order lowc highc x, self)))"

definition detrend :: "scipy_signal \<Rightarrow> real list \<Rightarrow> SyncAnalyzer \<Rightarrow> real list outcome" where
  "detrend L x self = (sp_detrend L x, self)"

text \<open>The expression \<^verbatim>\<open>(x - np.mean(x)) / (s if s > 1e-12 else 1.0)\<close> that \<^verbatim>\<open>zscore\<close>
  returns, as a function of the standard deviation \<open>s\<close> and of the mean \<open>m\<close> that the two
  reductions delivered.  numpy rounds both reductions, so that on a constant segment the
  mean it delivers need not be the common value of the samples, nor the standard deviation
  be zero; a statement about \<open>zscore_with\<close> for every \<open>s\<close> and \<open>m\<close> does not depend on how
  the reductions round.  \<^verbatim>\<open>zscore\<close> itself is modelled with the exact reductions.\<close>

definition zscore_with :: "real \<Rightarrow> real \<Rightarrow> real list \<Rightarrow> real list" where
  "zscore_with s m x = map (\<lambda>v. (v - m) / (if 1 / 10 ^ 12 < s then s else 1)) x"

definition zscore :: "real list \<Rightarrow> SyncAnalyzer \<Rightarrow> real list outcome" where
  "zscore x self =
     (let s = np_std x
      in (Inr (zscore_with s (np_mean x) x), self))"

definition resample_to ::
  "scipy_signal \<Rightarrow> real list \<Rightarrow> real \<Rightarrow> real \<Rightarrow> SyncAnalyzer \<Rightarrow> (real list \<times> real) outcome" where
  \<comment> \<open>\<^verbatim>\<open>up //= g\<close> raises when both rounded rates are zero, since then \<^verbatim>\<open>g\<close> is zero\<close>
  "resample_to L x orig_fs target_fs self =
     (if \<bar>orig_fs - target_fs\<bar> < 1 / 10 ^ 6 then (Inr (x, orig_fs), self)
      else (let up = py_round target_fs;
                down = py_round orig_fs;
                g = gcd up down
            in if g = 0 then (Inl ZeroDivisionError, self)
               else (let up = up div g; down = down div g
                     in case resample_poly L x up down of
                          Inl e \<Rightarrow> (Inl e, self)
                        | Inr y \<Rightarrow> (Inr (y, target_fs), self))))"

subsection \<open>Peaks and metrics\<close>

definition detect_ecg_rpeaks :: "scipy_signal \<Rightarrow> real list \<Rightarrow> SyncAnalyzer \<Rightarrow> int list outcome" where
  "detect_ecg_rpeaks L ecg_f self =
     and_then (zscore ecg_f self)
       (\<lambda>z self. (find_peaks L z (py_int (0.25 * sampling_rate self)) 1.0, self))"

definition detect_ppg_peaks :: "scipy_signal \<Rightarrow> real list \<Rightarrow> SyncAnalyzer \<Rightarrow> int list outcome" where
  "detect_ppg_peaks L ppg_f self =
     and_then (zscore ppg_f self)
       (\<lambda>z self. (find_peaks L z (py_int (0.3 * sampling_rate self)) 0.3, self))"

definition compute_hr ::
  "int list \<Rightarrow> SyncAnalyzer \<Rightarrow> (real option \<times> real option \<times> real option) outcome" where
  "compute_hr peak_indices self =
     (if length peak_indices < 2 then (Inr (None, None, None), self)
      else (let rr = map (\<lambda>d. real_of_int d / sampling_rate self) (np_diff peak_indices);
                hr = (if 0 < np_mean rr then Some (60 / np_mean rr) else None)
            in (Inr (hr, Some (np_mean rr), Some (np_std rr)), self)))"

text \<open>The inner \<^verbatim>\<open>while\<close> loop of \<^verbatim>\<open>map_ptt\<close>: the cursor \<open>j\<close> moves forward while it
  is in range and the PPG peak under it lies before \<open>r\<close>.\<close>

function ptt_cursor :: "int list \<Rightarrow> int \<Rightarrow> nat \<Rightarrow> nat" where
  "ptt_cursor ppg_idx r j =
     (if j < length ppg_idx \<and> ppg_idx ! j < r then ptt_cursor ppg_idx r (j + 1) else j)"
  by pat_completeness auto
termination
  by (relation "measure (\<lambda>(ppg_idx, r, j). length ppg_idx - j)") auto

declare ptt_cursor.simps [simp del]

text \<open>The \<^verbatim>\<open>for r in r_idx\<close> loop: the cursor and the list of accepted transit times are
  carried from one beat to the next.\<close>

fun ptt_loop :: "real \<Rightarrow> int list \<Rightarrow> int list \<Rightarrow> nat \<Rightarrow> real list \<Rightarrow> real list" where
  "ptt_loop rate ppg_idx [] j ptts = ptts"
| "ptt_loop rate ppg_idx (r # rs) j ptts =
     (let j = ptt_cursor ppg_idx r j
      in if j < length ppg_idx
         then (let ptt_s = real_of_int (ppg_idx ! j - r) / rate
               in if 0 < ptt_s \<and> ptt_s < 1.5
                  then ptt_loop rate ppg_idx rs j (ptts @ [ptt_s])
                  else ptt_loop rate ppg_idx rs j ptts)
         else ptt_loop rate ppg_idx rs j ptts)"

definition map_ptt :: "int list \<Rightarrow> int list \<Rightarrow> SyncAnalyzer \<Rightarrow> real list outcome" where
  "map_ptt r_idx ppg_idx self =
     (if length r_idx = 0 \<or> length ppg_idx = 0 then (Inr [], self)
      else (Inr (ptt_loop (sampling_rate self) ppg_idx r_idx 0 []), self))"

definition ptt_stats :: "real list \<Rightarrow> real option \<times> real option" where
  \<comment> \<open>\<^verbatim>\<open>ptt_mean_s\<close> and \<^verbatim>\<open>ptt_sd_s\<close> as \<^verbatim>\<open>analyze_roi\<close> derives them from the array of \<^verbatim>\<open>map_ptt\<close>\<close>
  "ptt_stats ptt_arr =
     (if length ptt_arr \<noteq> 0 then Some (np_mean ptt_arr) else None,
      if length ptt_arr \<noteq> 0 then Some (np_std ptt_arr) else None)"

definition delay_by_xcorr :: "real list \<Rightarrow> real list \<Rightarrow> SyncAnalyzer \<Rightarrow> real outcome" where
  "delay_by_xcorr x y self =
     and_then (zscore x self) (\<lambda>x0 self.
     and_then (zscore y self) (\<lambda>y0 self.
       (case np_correlate_full y0 x0 of
          Inl e \<Rightarrow> (Inl e, self)
        | Inr corr \<Rightarrow>
            (case np_argmax corr of
               Inl e \<Rightarrow> (Inl e, self)
             | Inr k \<Rightarrow>
                 (let lag = int k - (int (length x0) - 1)
                  in (Inr (real_of_int lag / sampling_rate self), self))))))"

subsection \<open>Signal quality\<close>

definition compute_sqi :: "real list \<Rightarrow> SyncAnalyzer \<Rightarrow> (string \<rightharpoonup> real) outcome" where
  "compute_sqi x self =
     (case (np_max x, np_min x) of
        (Inr mx, Inr mn) \<Rightarrow>
          (let rng = mx - mn + 1 / 10 ^ 9;
               sat = np_mean_bool (map (\<lambda>v. mx - 0.01 * rng < v \<or> v < mn + 0.01 * rng) x);
               flat = np_mean_bool (map (\<lambda>d. \<bar>d\<bar> < 1 / 10 ^ 4) (np_diff x));
               snr_like = np_var x / (np_mean (map abs (np_diff x)) + 1 / 10 ^ 9)
           in (Inr [''saturation'' \<mapsto> sat, ''flatness'' \<mapsto> flat, ''snr_like'' \<mapsto> snr_like], self))
      | (Inl e, _) \<Rightarrow> (Inl e, self)
      | (_, Inl e) \<Rightarrow> (Inl e, self))"

subsection \<open>End-to-end ROI analysis\<close>

text \<open>Step 2 of \<^verbatim>\<open>analyze_roi\<close>, first half: optional detrending of both segments.
  The result is the pair \<open>(ppg_roi, ecg_roi)\<close>.\<close>

definition roi_detrend ::
  "scipy_signal \<Rightarrow> bool \<Rightarrow> real list \<Rightarrow> real list \<Rightarrow> SyncAnalyzer
     \<Rightarrow> (real list \<times> real list) outcome" where
  "roi_detrend L do_detrend ppg_roi ecg_roi self =
     (if do_detrend
      then and_then (detrend L ppg_roi self) (\<lambda>ppg_roi self.
           and_then (detrend L ecg_roi self) (\<lambda>ecg_roi self.
             (Inr (ppg_roi, ecg_roi), self)))
      else (Inr (ppg_roi, ecg_roi), self))"

text \<open>Step 2, second half: the filtering selected by \<^verbatim>\<open>filt_mode\<close>.  The result is the
  pair \<open>(ecg_f, ppg_f)\<close>.\<close>

definition roi_filter ::
  "scipy_signal \<Rightarrow> string \<Rightarrow> real list \<Rightarrow> real list \<Rightarrow> SyncAnalyzer
     \<Rightarrow> (real list \<times> real list) outcome" where
  "roi_filter L filt_mode ppg_roi ecg_roi self =
     (if filt_mode = ''default'' \<or> filt_mode = ''ppg_ecg''
      then and_then (bandpass L ecg_roi 5.0 15.0 4 self) (\<lambda>ecg_f self.
           and_then (bandpass L ppg_roi 0.5 5.0 4 self) (\<lambda>ppg_f self.
             (Inr (ecg_f, ppg_f), self)))
      else if filt_mode = ''ppg_only''
      then and_then (bandpass L ppg_roi 0.5 5.0 4 self) (\<lambda>ppg_f self.
             (Inr (ecg_roi, ppg_f), self))
      else if filt_mode = ''off''
      then (Inr (ecg_roi, ppg_roi), self)
      else (Inr (ecg_roi, ppg_roi), self))"

definition roi_preprocess ::
  "scipy_signal \<Rightarrow> bool \<Rightarrow> string \<Rightarrow> real list \<Rightarrow> real list \<Rightarrow> SyncAnalyzer
     \<Rightarrow> (real list \<times> real list) outcome" where
  "roi_preprocess L do_detrend filt_mode ppg_roi ecg_roi self =
     and_then (roi_detrend L do_detrend ppg_roi ecg_roi self)
       (\<lambda>(ppg_roi, ecg_roi) self. roi_filter L filt_mode ppg_roi ecg_roi self)"

text \<open>Steps 3 to 5 and the assembly of the result, from the filtered segments on.\<close>

definition roi_metrics ::
  "scipy_signal \<Rightarrow> real list \<Rightarrow> real list \<Rightarrow> real list \<Rightarrow> SyncAnalyzer \<Rightarrow> ROIResult outcome" where
  "roi_metrics L t_roi ecg_f ppg_f self =
     and_then (detect_ecg_rpeaks L ecg_f self) (\<lambda>r_idx self.
     and_then (detect_ppg_peaks L ppg_f self) (\<lambda>ppg_pk self.
     and_then (compute_hr r_idx self) (\<lambda>(hr_bpm', rr_mean_s', rr_sd_s') self.
     and_then (map_ptt r_idx ppg_pk self) (\<lambda>ptt_arr self.
     and_then (align_signals ppg_f ecg_f self) (\<lambda>(ppg_cut, ecg_cut) self.
     and_then (delay_by_xcorr ecg_cut ppg_cut self) (\<lambda>delay_s self.
     and_then (compute_sqi ppg_f self) (\<lambda>sqi' self.
       (Inr \<lparr>start_s = the (roi_start self),
              end_s = the (roi_end self),
              n_samples = length t_roi,
              fs = sampling_rate self,
              hr_bpm = hr_bpm',
              rr_mean_s = rr_mean_s',
              rr_sd_s = rr_sd_s',
              ptt_mean_s = fst (ptt_stats ptt_arr),
              ptt_sd_s = snd (ptt_stats ptt_arr),
              delay_xcorr_s = Some delay_s,
              sqi = sqi'\<rparr>, self))))))))"

definition analyze_roi ::
  "scipy_signal \<Rightarrow> real list \<Rightarrow> real list \<Rightarrow> real list \<Rightarrow> bool \<Rightarrow> string \<Rightarrow> SyncAnalyzer
     \<Rightarrow> ROIResult outcome" where
  "analyze_roi L t ppg ecg do_detrend filt_mode self =
     (if roi_start self = None \<or> roi_end self = None then (Inl NoRoiConfigured, self)
      else and_then (extract_roi ppg self) (\<lambda>ppg_roi self.
           and_then (extract_roi ecg self) (\<lambda>ecg_roi self.
           and_then (extract_roi t self) (\<lambda>t_roi self.
           and_then (roi_preprocess L do_detrend filt_mode ppg_roi ecg_roi self)
             (\<lambda>(ecg_f, ppg_f) self. roi_metrics L t_roi ecg_f ppg_f self)))))"

subsection \<open>The specification's wording, for comparison with the code\<close>

text \<open>PTT mapping as the specification words it: each R-peak is paired with the first PPG
  peak index strictly greater than it, and the pairing is kept when the transit time lies
  strictly between 0 and 1.5 seconds.\<close>

definition beat_ptt_spec :: "real \<Rightarrow> int list \<Rightarrow> int \<Rightarrow> real option" where
  "beat_ptt_spec rate ppg_idx r =
     (case find (\<lambda>p. r < p) ppg_idx of
        None \<Rightarrow> None
      | Some p \<Rightarrow> (let d = real_of_int (p - r) / rate
                   in if 0 < d \<and> d < 1.5 then Some d else None))"

definition map_ptt_spec :: "real \<Rightarrow> int list \<Rightarrow> int list \<Rightarrow> real list" where
  "map_ptt_spec rate r_idx ppg_idx = List.map_filter (beat_ptt_spec rate ppg_idx) r_idx"

text \<open>The same with the first PPG peak index greater than or equal to the R-peak.\<close>

definition beat_ptt :: "real \<Rightarrow> int list \<Rightarrow> int \<Rightarrow> real option" where
  "beat_ptt rate ppg_idx r =
     (case find (\<lambda>p. r \<le> p) ppg_idx of
        None \<Rightarrow> None
      | Some p \<Rightarrow> (let d = real_of_int (p - r) / rate
                   in if 0 < d \<and> d < 1.5 then Some d else None))"

definition map_ptt_first_ge :: "real \<Rightarrow> int list \<Rightarrow> int list \<Rightarrow> real list" where
  "map_ptt_first_ge rate r_idx ppg_idx = List.map_filter (beat_ptt rate ppg_idx) r_idx"


text \<open>RR intervals as the specification words them: consecutive peak-index differences
  divided by the sampling rate; and the population standard deviation.\<close>

definition rr_intervals :: "real \<Rightarrow> int list \<Rightarrow> real list" where
  "rr_intervals rate peaks =
     map (\<lambda>i. real_of_int (peaks ! (i + 1) - peaks ! i) / rate) [0..<length peaks - 1]"

definition population_sd :: "real list \<Rightarrow> real" where
  "population_sd xs =
     sqrt ((\<Sum>v \<leftarrow> xs. (v - sum_list xs / real (length xs))\<^sup>2) / real (length xs))"

text \<open>A library instance in which conditioning returns its input, no peak is ever found
  (a minimal peak distance below 1 is refused, as \<^verbatim>\<open>scipy.signal.find_peaks\<close> does) and
  resampling raises; it instantiates the statements below at concrete inputs.\<close>

definition quiet_library :: scipy_signal where
  "quiet_library =
     \<lparr>sp_detrend = Inr,
      butter_filtfilt = (\<lambda>order lowc highc x. Inr x),
      find_peaks = (\<lambda>z distance prominence. if distance < 1 then Inl LibraryError else Inr []),
      resample_poly = (\<lambda>x up down. Inl LibraryError)\<rparr>"

text \<open>Detrending and zero-phase filtering return an array of the shape of their input;
  a library with that property is called length preserving.\<close>

definition length_preserving :: "scipy_signal \<Rightarrow> bool" where
  "length_preserving L \<longleftrightarrow>
     (\<forall>x y. sp_detrend L x = Inr y \<longrightarrow> length y = length x) \<and>
     (\<forall>order lowc highc x y. butter_filtfilt L order lowc highc x = Inr y \<longrightarrow> length y = length x)"

section \<open>Configuration: \<^verbatim>\<open>set_roi\<close> and \<^verbatim>\<open>set_sampling_rate\<close>\<close>

text \<open>
  C3.  When \<open>end_time \<le> start_time\<close>, \<^verbatim>\<open>set_roi\<close> raises the invalid-range error and
  the stored ROI bounds are what they were before the call; when \<open>start_time < end_time\<close>
  it returns normally and both bounds are stored, whatever was stored before.
\<close>

theorem set_roi_rejects_or_stores:
  "(end_time \<le> start_time \<longrightarrow>
      fst (set_roi start_time end_time self) = Inl InvalidRange \<and>
      roi_start (snd (set_roi start_time end_time self)) = roi_start self \<and>
      roi_end (snd (set_roi start_time end_time self)) = roi_end self) \<and>
   (start_time < end_time \<longrightarrow>
      fst (set_roi start_time end_time self) = Inr () \<and>
      roi_start (snd (set_roi start_time end_time self)) = Some start_time \<and>
      roi_end (snd (set_roi start_time end_time self)) = Some end_time)"
  by (simp add: set_roi_def)

theorem set_roi_rejects_or_stores_witness:
  "(2::real) \<le> 4 \<and>
   fst (set_roi 4 2 \<lparr>sampling_rate = 128, roi_start = Some 1, roi_end = Some 3\<rparr>) = Inl InvalidRange \<and>
   roi_start (snd (set_roi 4 2 \<lparr>sampling_rate = 128, roi_start = Some 1, roi_end = Some 3\<rparr>)) = Some 1 \<and>
   roi_end (snd (set_roi 4 2 \<lparr>sampling_rate = 128, roi_start = Some 1, roi_end = Some 3\<rparr>)) = Some 3 \<and>
   (2::real) < 4 \<and>
   fst (set_roi 2 4 \<lparr>sampling_rate = 128, roi_start = Some 1, roi_end = Some 3\<rparr>) = Inr () \<and>
   roi_start (snd (set_roi 2 4 \<lparr>sampling_rate = 128, roi_start = Some 1, roi_end = Some 3\<rparr>)) = Some 2 \<and>
   roi_end (snd (set_roi 2 4 \<lparr>sampling_rate = 128, roi_start = Some 1, roi_end = Some 3\<rparr>)) = Some 4"
  using set_roi_rejects_or_stores [of 2 4 "\<lparr>sampling_rate = 128, roi_start = Some 1, roi_end = Some 3\<rparr>"]
        set_roi_rejects_or_stores [of 4 2 "\<lparr>sampling_rate = 128, roi_start = Some 1, roi_end = Some 3\<rparr>"]
  by simp

text \<open>
  C7, as stated, fails: \<^verbatim>\<open>set_sampling_rate\<close> called with \<open>0\<close> or with \<open>-5\<close> returns
  normally and stores that value.
\<close>

theorem set_sampling_rate_nonpositive_counterexample:
  "fst (set_sampling_rate 0 (init 128)) = Inr () \<and>
   sampling_rate (snd (set_sampling_rate 0 (init 128))) = 0 \<and>
   fst (set_sampling_rate (- 5) (init 128)) = Inr () \<and>
   sampling_rate (snd (set_sampling_rate (- 5) (init 128))) = - 5"
  by (simp add: set_sampling_rate_def init_def)

text \<open>
  C7, amended.  \<^verbatim>\<open>set_sampling_rate\<close> never raises: for every value, positive or not, it
  replaces the stored sampling rate by that value and leaves the ROI bounds as they were.
\<close>

theorem set_sampling_rate_replaces:
  "fst (set_sampling_rate rate self) = Inr () \<and>
   sampling_rate (snd (set_sampling_rate rate self)) = rate \<and>
   roi_start (snd (set_sampling_rate rate self)) = roi_start self \<and>
   roi_end (snd (set_sampling_rate rate self)) = roi_end self"
  by (simp add: set_sampling_rate_def)

section \<open>Rate conversion\<close>

text \<open>
  C8.  When the two rates differ by less than \<open>10\<^sup>-\<^sup>6\<close> Hz, \<^verbatim>\<open>resample_to\<close> returns the
  segment it was given, unchanged, together with the original rate; the resampling routine
  is not consulted and the analyzer is not modified.
\<close>

theorem resample_to_identity:
  "\<bar>orig_fs - target_fs\<bar> < 1 / 10 ^ 6 \<Longrightarrow>
   resample_to L x orig_fs target_fs self = (Inr (x, orig_fs), self)"
  by (simp add: resample_to_def)

theorem resample_to_identity_witness:
  "\<bar>(128::real) - (128 + 1 / 10 ^ 7)\<bar> < 1 / 10 ^ 6 \<and>
   resample_to quiet_library [1, 2, 3] 128 (128 + 1 / 10 ^ 7) (init 128)
     = (Inr ([1, 2, 3], 128), init 128)"
proof -
  have h: "\<bar>(128::real) - (128 + 1 / 10 ^ 7)\<bar> < 1 / 10 ^ 6" by simp
  show ?thesis
    using h resample_to_identity [OF h, of quiet_library "[1, 2, 3]" "init 128"] by simp
qed

text \<open>Outside that tolerance the resampling routine is called: with a library whose
  resampling raises, the call raises.\<close>

lemma resample_to_calls_library:
  "resample_to quiet_library [1, 2, 3] 128 256 (init 128) = (Inl LibraryError, init 128)"
  by (simp add: resample_to_def py_round_def quiet_library_def Let_def)

section \<open>ROI extraction\<close>

lemma py_slice_nonneg:
  "0 \<le> i \<Longrightarrow> 0 \<le> j \<Longrightarrow> py_slice xs i j = take (nat j - nat i) (drop (nat i) xs)"
  by (auto simp: py_slice_def Let_def min_def nat_diff_distrib')

text \<open>\<^verbatim>\<open>extract_roi\<close> raises exactly when a ROI bound is unset, and never modifies the
  analyzer.\<close>

lemma extract_roi_unset_iff:
  "fst (extract_roi signal self) = Inl NoRoiConfigured \<longleftrightarrow> roi_start self = None \<or> roi_end self = None"
  by (auto simp: extract_roi_def Let_def split: option.splits)

lemma extract_roi_frame: "snd (extract_roi signal self) = self"
  by (auto simp: extract_roi_def Let_def split: option.splits)

text \<open>When the end of the ROI is not negative, the result is the window of samples from
  the start index, rounded down and clamped to 0, up to the end index, rounded down and
  clamped to the length of the signal.\<close>

lemma extract_roi_window:
  assumes "roi_start self = Some rs" "roi_end self = Some re" "0 \<le> re * sampling_rate self"
  shows "fst (extract_roi signal self) =
         Inr (take (nat (min (int (length signal)) \<lfloor>re * sampling_rate self\<rfloor>)
                     - nat (max 0 \<lfloor>rs * sampling_rate self\<rfloor>))
                (drop (nat (max 0 \<lfloor>rs * sampling_rate self\<rfloor>)) signal))"
proof -
  have e: "py_int (re * sampling_rate self) = \<lfloor>re * sampling_rate self\<rfloor>"
    using assms(3) by (simp add: py_int_def)
  have s: "max 0 (py_int (rs * sampling_rate self)) = max 0 \<lfloor>rs * sampling_rate self\<rfloor>"
    by (auto simp: py_int_def max_def) linarith+
  have "0 \<le> min (int (length signal)) \<lfloor>re * sampling_rate self\<rfloor>"
    using assms(3) by simp
  then show ?thesis
    using assms(1,2) by (simp add: extract_roi_def Let_def e s py_slice_nonneg)
qed

lemma extract_roi_example:
  assumes "length signal = 1000"
  shows "fst (extract_roi signal \<lparr>sampling_rate = 100, roi_start = Some 2, roi_end = Some 4\<rparr>)
         = Inr (take 200 (drop 200 signal))"
  using assms by (simp add: extract_roi_def Let_def py_int_def py_slice_def)

text \<open>
  C4.  The end index is clamped to the length of the signal but not to 0, unlike the start
  index.  With the ROI \<open>(-5, -2)\<close> at 1 Hz the clamped indices are \<open>0\<close> and \<open>-2\<close>, and the
  slice \<^verbatim>\<open>signal[0:-2]\<close> of a 10-sample signal counts its end from the back: the call
  returns the first 8 samples, none of which lies in the ROI, where the window of indices
  from 0 up to -2 is empty.
\<close>

theorem extract_roi_negative_end_wraps:
  "fst (extract_roi [0, 1, 2, 3, 4, 5, 6, 7, 8, 9 :: real]
          \<lparr>sampling_rate = 1, roi_start = Some (- 5), roi_end = Some (- 2)\<rparr>)
   = Inr [0, 1, 2, 3, 4, 5, 6, 7]"
  by (simp add: extract_roi_def Let_def py_int_def py_slice_def)

section \<open>Heart rate and RR statistics\<close>

lemma np_diff_nth: "np_diff xs = map (\<lambda>i. xs ! (i + 1) - xs ! i) [0..<length xs - 1]"
  by (rule nth_equalityI) (auto simp: np_diff_def nth_tl)

lemma np_std_population: "np_std xs = population_sd xs"
  by (simp add: np_std_def np_var_def np_mean_def population_sd_def)

lemma rr_of_diff:
  "map (\<lambda>d. real_of_int d / rate) (np_diff peaks) = rr_intervals rate peaks"
  by (simp add: np_diff_nth rr_intervals_def)

lemma compute_hr_frame: "snd (compute_hr peaks self) = self"
  by (simp add: compute_hr_def Let_def)

text \<open>
  C5.  With fewer than two peaks \<^verbatim>\<open>compute_hr\<close> returns three absent values.  With two or
  more (and a sampling rate other than zero), the RR intervals are the consecutive index
  differences divided by the sampling rate; the heart rate is 60 over their mean, absent
  when that mean is not positive; the mean and the population standard deviation of the
  intervals are returned.  On the peaks \<open>[0, 128, 256, 384]\<close> at 128 Hz the result is a
  heart rate of 60, a mean of 1 and a standard deviation of 0.
\<close>

theorem compute_hr_rr_statistics:
  "(length peaks < 2 \<longrightarrow> fst (compute_hr peaks self) = Inr (None, None, None)) \<and>
   (2 \<le> length peaks \<and> sampling_rate self \<noteq> 0 \<longrightarrow>
      fst (compute_hr peaks self) =
        Inr (if 0 < np_mean (rr_intervals (sampling_rate self) peaks)
             then Some (60 / np_mean (rr_intervals (sampling_rate self) peaks)) else None,
             Some (np_mean (rr_intervals (sampling_rate self) peaks)),
             Some (population_sd (rr_intervals (sampling_rate self) peaks)))) \<and>
   fst (compute_hr [0, 128, 256, 384] (init 128)) = Inr (Some 60, Some 1, Some 0)"
proof (intro conjI impI)
  show "fst (compute_hr [0, 128, 256, 384] (init 128)) = Inr (Some 60, Some 1, Some 0)"
    by (simp add: compute_hr_def init_def np_diff_def np_mean_def np_std_def np_var_def)
qed (simp_all add: compute_hr_def Let_def rr_of_diff np_std_population)

theorem compute_hr_rr_statistics_witness:
  "length [7 :: int] < 2 \<and> fst (compute_hr [7] (init 128)) = Inr (None, None, None) \<and>
   2 \<le> length [0, 100, 300 :: int] \<and> sampling_rate (init 100) \<noteq> 0 \<and>
   fst (compute_hr [0, 100, 300] (init 100)) = Inr (Some 40, Some (3 / 2), Some (1 / 2))"
proof -
  have rr: "rr_intervals 100 [0, 100, 300] = [1, 2]"
    by (simp add: rr_intervals_def upt_rec numeral_2_eq_2)
  have m: "np_mean [1, 2] = 3 / 2" by (simp add: np_mean_def)
  have "sqrt ((1 / 4 :: real)) = 1 / 2"
    by (rule real_sqrt_unique) (simp_all add: power2_eq_square)
  then have sd: "population_sd [1, 2] = 1 / 2"
    by (simp add: population_sd_def power2_eq_square)
  show ?thesis
    using compute_hr_rr_statistics [of "[7]" "init 128"]
          compute_hr_rr_statistics [of "[0, 100, 300]" "init 100"]
    by (simp add: rr m sd init_def)
qed

section \<open>Normalisation\<close>

lemma zscore_frame: "snd (zscore x self) = self"
  by (simp add: zscore_def Let_def)







section \<open>Signal quality indices\<close>

lemma np_mean_bool_fraction:
  "np_mean_bool (map P xs) = real (length (filter P xs)) / real (length xs)"
proof -
  have "sum_list (map (\<lambda>b. if b then 1 else 0) (map P xs)) = real (length (filter P xs))"
    by (induction xs) simp_all
  then show ?thesis by (simp add: np_mean_bool_def np_mean_def)
qed

lemma fraction_bounds:
  "0 \<le> real (length (filter P xs)) / real (length xs) \<and>
   real (length (filter P xs)) / real (length xs) \<le> 1"
proof (cases "xs = []")
  case True
  then show ?thesis by simp
next
  case False
  have "length (filter P xs) \<le> length xs" by (rule length_filter_le)
  then show ?thesis using False by (simp add: divide_le_eq_1)
qed

lemma np_max_Max: "x \<noteq> [] \<Longrightarrow> np_max x = Inr (Max (set x))"
  by (cases x) (simp_all add: np_max_def Max.set_eq_fold [symmetric])

lemma np_min_Min: "x \<noteq> [] \<Longrightarrow> np_min x = Inr (Min (set x))"
  by (cases x) (simp_all add: np_min_def Min.set_eq_fold [symmetric])

lemma length_np_diff: "length (np_diff xs) = length xs - 1"
  by (simp add: np_diff_def)

lemma compute_sqi_frame: "snd (compute_sqi x self) = self"
  by (cases "np_max x"; cases "np_min x") (simp_all add: compute_sqi_def Let_def)

lemma compute_sqi_empty: "fst (compute_sqi [] self) = Inl EmptyArray"
  by (simp add: compute_sqi_def np_max_def np_min_def)

lemma compute_sqi_nonempty:
  assumes "x \<noteq> []"
  shows "fst (compute_sqi x self) =
    Inr [''saturation'' \<mapsto>
           real (length (filter
             (\<lambda>v. Max (set x) - 0.01 * (Max (set x) - Min (set x) + 1 / 10 ^ 9) < v \<or>
                  v < Min (set x) + 0.01 * (Max (set x) - Min (set x) + 1 / 10 ^ 9)) x))
           / real (length x),
         ''flatness'' \<mapsto>
           real (length (filter (\<lambda>d. \<bar>d\<bar> < 1 / 10 ^ 4) (np_diff x))) / real (length (np_diff x)),
         ''snr_like'' \<mapsto> np_var x / (np_mean (map abs (np_diff x)) + 1 / 10 ^ 9)]"
  unfolding compute_sqi_def np_max_Max [OF assms] np_min_Min [OF assms] Let_def
    np_mean_bool_fraction
  by simp

lemma sqi_dict_dom:
  "dom [''saturation'' \<mapsto> (a::real), ''flatness'' \<mapsto> b, ''snr_like'' \<mapsto> c]
   = {''saturation'', ''flatness'', ''snr_like''}"
  by (simp add: insert_commute)

lemma sqi_dict_saturation:
  "[''saturation'' \<mapsto> (a::real), ''flatness'' \<mapsto> b, ''snr_like'' \<mapsto> c] ''saturation'' = Some a"
  by simp

lemma sqi_dict_flatness:
  "[''saturation'' \<mapsto> (a::real), ''flatness'' \<mapsto> b, ''snr_like'' \<mapsto> c] ''flatness'' = Some b"
  by simp

text \<open>
  C10.  On a segment of at least two samples \<^verbatim>\<open>compute_sqi\<close> returns a mapping whose keys
  are exactly \<^verbatim>\<open>saturation\<close>, \<^verbatim>\<open>flatness\<close> and \<^verbatim>\<open>snr_like\<close>.  The saturation is the fraction
  of samples within 1% of the range (widened by \<open>10\<^sup>-\<^sup>9\<close>) of the maximum or of the minimum,
  the flatness is the fraction of consecutive differences smaller than \<open>10\<^sup>-\<^sup>4\<close> in
  magnitude, and both lie between 0 and 1.
\<close>

theorem compute_sqi_keys_and_fractions:
  assumes "2 \<le> length x"
  shows "\<exists>m. fst (compute_sqi x self) = Inr m \<and>
           dom m = {''saturation'', ''flatness'', ''snr_like''} \<and>
           m ''saturation'' = Some (real (length (filter
             (\<lambda>v. Max (set x) - 0.01 * (Max (set x) - Min (set x) + 1 / 10 ^ 9) < v \<or>
                  v < Min (set x) + 0.01 * (Max (set x) - Min (set x) + 1 / 10 ^ 9)) x))
             / real (length x)) \<and>
           m ''flatness'' = Some (real (length (filter (\<lambda>d. \<bar>d\<bar> < 1 / 10 ^ 4) (np_diff x)))
             / real (length (np_diff x))) \<and>
           (\<forall>v. m ''saturation'' = Some v \<longrightarrow> 0 \<le> v \<and> v \<le> 1) \<and>
           (\<forall>v. m ''flatness'' = Some v \<longrightarrow> 0 \<le> v \<and> v \<le> 1)"
proof -
  let ?sat = "real (length (filter
             (\<lambda>v. Max (set x) - 0.01 * (Max (set x) - Min (set x) + 1 / 10 ^ 9) < v \<or>
                  v < Min (set x) + 0.01 * (Max (set x) - Min (set x) + 1 / 10 ^ 9)) x))
             / real (length x)"
  let ?flat = "real (length (filter (\<lambda>d. \<bar>d\<bar> < 1 / 10 ^ 4) (np_diff x)))
             / real (length (np_diff x))"
  let ?snr = "np_var x / (np_mean (map abs (np_diff x)) + 1 / 10 ^ 9)"
  let ?m = "[''saturation'' \<mapsto> ?sat, ''flatness'' \<mapsto> ?flat, ''snr_like'' \<mapsto> ?snr]"
  from assms have ne: "x \<noteq> []" by auto
  have r: "fst (compute_sqi x self) = Inr ?m"
    by (rule compute_sqi_nonempty [OF ne])
  have d: "dom ?m = {''saturation'', ''flatness'', ''snr_like''}"
    by (rule sqi_dict_dom)
  have s: "?m ''saturation'' = Some ?sat" by (rule sqi_dict_saturation)
  have f: "?m ''flatness'' = Some ?flat" by (rule sqi_dict_flatness)
  have sb: "0 \<le> ?sat \<and> ?sat \<le> 1" by (rule fraction_bounds)
  have fb: "0 \<le> ?flat \<and> ?flat \<le> 1" by (rule fraction_bounds)
  have sv: "\<forall>v. ?m ''saturation'' = Some v \<longrightarrow> 0 \<le> v \<and> v \<le> 1"
    unfolding s using sb by blast
  have fv: "\<forall>v. ?m ''flatness'' = Some v \<longrightarrow> 0 \<le> v \<and> v \<le> 1"
    unfolding f using fb by blast
  show ?thesis
    by (rule exI [of _ ?m]) (intro conjI r d s f sv fv)
qed

theorem compute_sqi_keys_and_fractions_witness:
  "2 \<le> length [1, 1, 3 :: real] \<and>
   (\<exists>m. fst (compute_sqi [1, 1, 3] (init 128)) = Inr m \<and>
        dom m = {''saturation'', ''flatness'', ''snr_like''} \<and>
        m ''flatness'' = Some (1 / 2) \<and>
        (\<forall>v. m ''saturation'' = Some v \<longrightarrow> 0 \<le> v \<and> v \<le> 1))"
proof -
  have h: "2 \<le> length [1, 1, 3 :: real]" by simp
  have d: "np_diff [1, 1, 3 :: real] = [0, 2]" by (simp add: np_diff_def)
  from compute_sqi_keys_and_fractions [OF h, of "init 128"]
  obtain m where m: "fst (compute_sqi [1, 1, 3] (init 128)) = Inr m"
      "dom m = {''saturation'', ''flatness'', ''snr_like''}"
      "m ''flatness'' = Some (real (length (filter (\<lambda>d. \<bar>d\<bar> < 1 / 10 ^ 4) (np_diff [1, 1, 3 :: real])))
             / real (length (np_diff [1, 1, 3 :: real])))"
      "\<forall>v. m ''saturation'' = Some v \<longrightarrow> 0 \<le> v \<and> v \<le> 1"
    by blast
  have "m ''flatness'' = Some (1 / 2)" unfolding m(3) d by simp
  with h m(1,2,4) show ?thesis by blast
qed

section \<open>Pulse transit time\<close>

text \<open>The cursor only moves forward, stays in range, passes only PPG peaks that lie before
  \<open>r\<close>, and stops on a peak that does not.\<close>

lemma ptt_cursor_props:
  "j \<le> ptt_cursor ppg_idx r j \<and>
   (j \<le> length ppg_idx \<longrightarrow> ptt_cursor ppg_idx r j \<le> length ppg_idx) \<and>
   (\<forall>i. j \<le> i \<and> i < ptt_cursor ppg_idx r j \<longrightarrow> ppg_idx ! i < r) \<and>
   (ptt_cursor ppg_idx r j < length ppg_idx \<longrightarrow> r \<le> ppg_idx ! ptt_cursor ppg_idx r j)"
proof (induction ppg_idx r j rule: ptt_cursor.induct)
  case (1 ppg_idx r j)
  show ?case
  proof (cases "j < length ppg_idx \<and> ppg_idx ! j < r")
    case True
    then have eq: "ptt_cursor ppg_idx r j = ptt_cursor ppg_idx r (j + 1)"
      by (subst ptt_cursor.simps) simp
    from "1.IH" [OF True] have ih:
      "j + 1 \<le> ptt_cursor ppg_idx r (j + 1)"
      "j + 1 \<le> length ppg_idx \<longrightarrow> ptt_cursor ppg_idx r (j + 1) \<le> length ppg_idx"
      "\<forall>i. j + 1 \<le> i \<and> i < ptt_cursor ppg_idx r (j + 1) \<longrightarrow> ppg_idx ! i < r"
      "ptt_cursor ppg_idx r (j + 1) < length ppg_idx \<longrightarrow> r \<le> ppg_idx ! ptt_cursor ppg_idx r (j + 1)"
      by blast+
    have "\<forall>i. j \<le> i \<and> i < ptt_cursor ppg_idx r (j + 1) \<longrightarrow> ppg_idx ! i < r"
    proof (intro allI impI)
      fix i assume a: "j \<le> i \<and> i < ptt_cursor ppg_idx r (j + 1)"
      show "ppg_idx ! i < r"
      proof (cases "i = j")
        case True
        then show ?thesis using \<open>j < length ppg_idx \<and> ppg_idx ! j < r\<close> by simp
      next
        case False
        then have "j + 1 \<le> i" using a by simp
        then show ?thesis using ih(3) a by blast
      qed
    qed
    then show ?thesis unfolding eq using ih True by auto
  next
    case False
    then have eq: "ptt_cursor ppg_idx r j = j"
      by (subst ptt_cursor.simps) auto
    show ?thesis unfolding eq using False by auto
  qed
qed

lemma find_first_at:
  assumes "k < length xs" "P (xs ! k)" "\<forall>i<k. \<not> P (xs ! i)"
  shows "find P xs = Some (xs ! k)"
  using assms by (auto simp: find_Some_iff)

lemma find_none_all:
  assumes "\<forall>i<length xs. \<not> P (xs ! i)"
  shows "find P xs = None"
  using assms by (auto simp: find_None_iff in_set_conv_nth)

lemma ptt_loop_first_ge:
  assumes "sorted rs" "j \<le> length ppg_idx" "\<forall>r\<in>set rs. \<forall>i<j. ppg_idx ! i < r"
  shows "ptt_loop rate ppg_idx rs j ptts = ptts @ List.map_filter (beat_ptt rate ppg_idx) rs"
  using assms
proof (induction rs arbitrary: j ptts)
  case Nil
  then show ?case by (simp add:)
next
  case (Cons r rs)
  let ?j = "ptt_cursor ppg_idx r j"
  from ptt_cursor_props [of j ppg_idx r] Cons.prems(2)
  have c: "j \<le> ?j" "?j \<le> length ppg_idx"
    "\<forall>i. j \<le> i \<and> i < ?j \<longrightarrow> ppg_idx ! i < r"
    "?j < length ppg_idx \<longrightarrow> r \<le> ppg_idx ! ?j"
    by blast+
  have before: "\<forall>i<?j. ppg_idx ! i < r"
  proof (intro allI impI)
    fix i assume "i < ?j"
    show "ppg_idx ! i < r"
    proof (cases "i < j")
      case True
      then show ?thesis using Cons.prems(3) by simp
    next
      case False
      then show ?thesis using c(3) \<open>i < ?j\<close> by simp
    qed
  qed
  have srt: "sorted rs" and le: "\<forall>r'\<in>set rs. r \<le> r'"
    using Cons.prems(1) by simp_all
  have inv: "\<forall>r'\<in>set rs. \<forall>i<?j. ppg_idx ! i < r'"
    using before le by fastforce
  note ih = Cons.IH [OF srt c(2) inv]
  show ?case
  proof (cases "?j < length ppg_idx")
    case True
    then have ge: "r \<le> ppg_idx ! ?j" using c(4) by blast
    have "\<forall>i<?j. \<not> r \<le> ppg_idx ! i" using before by (simp add: not_le)
    then have f: "find (\<lambda>p. r \<le> p) ppg_idx = Some (ppg_idx ! ?j)"
      using find_first_at [of ?j ppg_idx "\<lambda>p. r \<le> p"] True ge by blast
    show ?thesis
      using True by (simp add: Let_def ih beat_ptt_def f)
  next
    case False
    then have "?j = length ppg_idx" using c(2) by simp
    then have "\<forall>i<length ppg_idx. \<not> r \<le> ppg_idx ! i" using before by (simp add: not_le)
    then have f: "find (\<lambda>p. r \<le> p) ppg_idx = None"
      by (rule find_none_all)
    show ?thesis
      using False by (simp add: Let_def ih beat_ptt_def f)
  qed
qed


lemma map_ptt_first_ge_no_ppg: "map_ptt_first_ge rate r_idx [] = []"
  by (simp add: map_ptt_first_ge_def map_filter_def beat_ptt_def)

lemma map_ptt_first_ge_no_r: "map_ptt_first_ge rate [] ppg_idx = []"
  by (simp add: map_ptt_first_ge_def)

lemma map_ptt_sorted:
  assumes "sorted r_idx"
  shows "map_ptt r_idx ppg_idx self
         = (Inr (map_ptt_first_ge (sampling_rate self) r_idx ppg_idx), self)"
proof (cases "length r_idx = 0 \<or> length ppg_idx = 0")
  case True
  then show ?thesis
    by (auto simp: map_ptt_def map_ptt_first_ge_no_ppg map_ptt_first_ge_no_r)
next
  case False
  have "ptt_loop (sampling_rate self) ppg_idx r_idx 0 []
        = [] @ List.map_filter (beat_ptt (sampling_rate self) ppg_idx) r_idx"
    by (rule ptt_loop_first_ge [OF assms]) simp_all
  then show ?thesis
    using False by (simp add: map_ptt_def map_ptt_first_ge_def)
qed

lemma ptt_stats_absent_iff:
  "(fst (ptt_stats ptts) = None \<longleftrightarrow> ptts = []) \<and> (snd (ptt_stats ptts) = None \<longleftrightarrow> ptts = [])"
  by (simp add: ptt_stats_def)

lemma map_ptt_accept_example:
  "map_ptt [100] [130] (init 100) = (Inr [3 / 10], init 100)"
  by (simp add: map_ptt_sorted map_ptt_first_ge_def beat_ptt_def init_def)

lemma map_ptt_reject_example:
  "map_ptt [100] [250] (init 100) = (Inr [], init 100)"
  by (simp add: map_ptt_sorted map_ptt_first_ge_def beat_ptt_def init_def)

lemma ptt_stats_single: "ptt_stats [3 / 10] = (Some (3 / 10), Some 0)"
  by (simp add: ptt_stats_def np_mean_def np_std_def np_var_def)

text \<open>
  C1, as stated, fails: with an R-peak at index 100 and PPG peaks at 100 and 130, at 100 Hz,
  the cursor stops on the PPG peak at 100 (it only skips peaks that lie before the R-peak),
  the transit time is 0 and the beat is discarded; pairing with the first PPG peak strictly
  greater than 100 gives the accepted transit time 0.3 s.
\<close>

theorem map_ptt_strictly_greater_counterexample:
  "fst (map_ptt [100] [100, 130] (init 100)) = Inr [] \<and>
   map_ptt_spec 100 [100] [100, 130] = [3 / 10] \<and>
   fst (map_ptt [100] [100, 130] (init 100)) \<noteq> Inr (map_ptt_spec 100 [100] [100, 130])"
proof -
  have a: "fst (map_ptt [100] [100, 130] (init 100)) = Inr []"
    by (simp add: map_ptt_sorted map_ptt_first_ge_def beat_ptt_def init_def)
  have b: "map_ptt_spec 100 [100] [100, 130] = [3 / 10]"
    by (simp add: map_ptt_spec_def beat_ptt_spec_def)
  show ?thesis unfolding a b by simp
qed

text \<open>
  C1, amended.  For ascending R-peak and PPG peak indices, \<^verbatim>\<open>map_ptt\<close> pairs each R-peak
  \<open>r\<close> with the first PPG peak index greater than or equal to \<open>r\<close>, and keeps the transit
  time \<open>(p - r) / fs\<close> exactly when it lies strictly between 0 and 1.5 seconds (a PPG peak
  at the same index as the R-peak is paired and discarded).  The PTT mean and standard
  deviation are absent exactly when no pairing survives.  With R-peaks \<open>[100]\<close> and PPG
  peaks \<open>[130]\<close> at 100 Hz the transit time 0.3 s is accepted; with PPG peaks \<open>[250]\<close> it is
  rejected and both statistics are absent.
\<close>

theorem map_ptt_pairs_first_ge:
  "(sorted r_idx \<and> sorted ppg_idx \<longrightarrow>
      map_ptt r_idx ppg_idx self
        = (Inr (map_ptt_first_ge (sampling_rate self) r_idx ppg_idx), self)) \<and>
   (fst (ptt_stats ptts) = None \<longleftrightarrow> ptts = []) \<and>
   (snd (ptt_stats ptts) = None \<longleftrightarrow> ptts = []) \<and>
   map_ptt [100] [130] (init 100) = (Inr [3 / 10], init 100) \<and>
   ptt_stats [3 / 10] = (Some (3 / 10), Some 0) \<and>
   map_ptt [100] [250] (init 100) = (Inr [], init 100) \<and>
   ptt_stats [] = (None, None)"
  using map_ptt_sorted [of r_idx ppg_idx self] ptt_stats_absent_iff [of ptts]
    map_ptt_accept_example map_ptt_reject_example ptt_stats_single
  by (simp add: ptt_stats_def)

theorem map_ptt_pairs_first_ge_witness:
  "sorted [100, 200, 300 :: int] \<and> sorted [130, 200, 500 :: int] \<and>
   map_ptt [100, 200, 300] [130, 200, 500] (init 100) = (Inr [3 / 10], init 100)"
proof -
  have s: "sorted [100, 200, 300 :: int] \<and> sorted [130, 200, 500 :: int]" by simp
  have e: "map_ptt_first_ge 100 [100, 200, 300] [130, 200, 500] = [3 / 10]"
    by (simp add: map_ptt_first_ge_def beat_ptt_def)
  from map_ptt_pairs_first_ge [of "[100, 200, 300]" "[130, 200, 500]" "init 100" "[]"] s
  have "map_ptt [100, 200, 300] [130, 200, 500] (init 100)
        = (Inr (map_ptt_first_ge (sampling_rate (init 100)) [100, 200, 300] [130, 200, 500]), init 100)"
    by blast
  then show ?thesis using s e by (simp add: init_def)
qed

section \<open>The analysis does not modify the configuration\<close>

text \<open>A sequence of calls that each leave the analyzer unchanged leaves it unchanged.\<close>

lemma and_then_frame:
  assumes "snd m = self" "\<And>v. snd (f v self) = self"
  shows "snd (and_then m f) = self"
proof (cases m)
  case (Pair r s)
  with assms(1) have s: "s = self" by simp
  show ?thesis
  proof (cases r)
    case (Inl e)
    then show ?thesis using Pair s by (simp add: and_then_def)
  next
    case (Inr v)
    then show ?thesis using Pair s assms(2) [of v] by (simp add: and_then_def)
  qed
qed

lemma detrend_frame: "snd (detrend L x self) = self"
  by (simp add: detrend_def)

lemma bandpass_frame: "snd (bandpass L x low high order self) = self"
  by (simp add: bandpass_def Let_def)

lemma detect_ecg_rpeaks_frame: "snd (detect_ecg_rpeaks L ecg_f self) = self"
  unfolding detect_ecg_rpeaks_def by (rule and_then_frame) (simp_all add: zscore_frame)

lemma detect_ppg_peaks_frame: "snd (detect_ppg_peaks L ppg_f self) = self"
  unfolding detect_ppg_peaks_def by (rule and_then_frame) (simp_all add: zscore_frame)

lemma map_ptt_frame: "snd (map_ptt r_idx ppg_idx self) = self"
  by (simp add: map_ptt_def)

lemma align_signals_frame: "snd (align_signals ppg ecg self) = self"
  by (simp add: align_signals_def Let_def)

lemma delay_by_xcorr_frame: "snd (delay_by_xcorr x y self) = self"
  unfolding delay_by_xcorr_def
proof (rule and_then_frame)
  show "snd (zscore x self) = self" by (rule zscore_frame)
next
  fix x0
  show "snd (and_then (zscore y self)
          (\<lambda>y0 self.
              case np_correlate_full y0 x0 of Inl e \<Rightarrow> (Inl e, self)
              | Inr corr \<Rightarrow>
                  (case np_argmax corr of Inl e \<Rightarrow> (Inl e, self)
                   | Inr k \<Rightarrow>
                       let lag = int k - (int (length x0) - 1)
                       in (Inr (real_of_int lag / sampling_rate self), self)))) = self"
  proof (rule and_then_frame)
    show "snd (zscore y self) = self" by (rule zscore_frame)
  next
    fix y0
    show "snd (case np_correlate_full y0 x0 of Inl e \<Rightarrow> (Inl e, self)
              | Inr corr \<Rightarrow>
                  (case np_argmax corr of Inl e \<Rightarrow> (Inl e, self)
                   | Inr k \<Rightarrow>
                       let lag = int k - (int (length x0) - 1)
                       in (Inr (real_of_int lag / sampling_rate self), self))) = self"
      by (simp add: Let_def split: sum.split)
  qed
qed

lemma roi_detrend_frame: "snd (roi_detrend L do_detrend ppg_roi ecg_roi self) = self"
  unfolding roi_detrend_def
  by (auto simp: detrend_frame intro!: and_then_frame)

lemma roi_filter_frame: "snd (roi_filter L filt_mode ppg_roi ecg_roi self) = self"
  unfolding roi_filter_def
  by (auto simp: bandpass_frame intro!: and_then_frame)

lemma roi_preprocess_frame:
  "snd (roi_preprocess L do_detrend filt_mode ppg_roi ecg_roi self) = self"
  unfolding roi_preprocess_def
  by (intro and_then_frame)
     (auto simp: roi_detrend_frame roi_filter_frame split: prod.split)

lemma roi_metrics_frame: "snd (roi_metrics L t_roi ecg_f ppg_f self) = self"
  unfolding roi_metrics_def
  by (intro and_then_frame)
     (auto simp: detect_ecg_rpeaks_frame detect_ppg_peaks_frame compute_hr_frame map_ptt_frame
        align_signals_frame delay_by_xcorr_frame compute_sqi_frame
        split: prod.split intro!: and_then_frame)

text \<open>
  C9.  \<^verbatim>\<open>analyze_roi\<close> leaves the configuration as it found it: whether it returns a
  result or raises (no ROI configured, or an exception of a library routine), the sampling
  rate and both ROI bounds of the analyzer after the call are those before the call.
\<close>

theorem analyze_roi_frame:
  "sampling_rate (snd (analyze_roi L t ppg ecg do_detrend filt_mode self)) = sampling_rate self \<and>
   roi_start (snd (analyze_roi L t ppg ecg do_detrend filt_mode self)) = roi_start self \<and>
   roi_end (snd (analyze_roi L t ppg ecg do_detrend filt_mode self)) = roi_end self"
proof -
  have "snd (analyze_roi L t ppg ecg do_detrend filt_mode self) = self"
  proof (cases "roi_start self = None \<or> roi_end self = None")
    case True
    then show ?thesis by (auto simp: analyze_roi_def)
  next
    case False
    have "snd (and_then (extract_roi ppg self) (\<lambda>ppg_roi self.
           and_then (extract_roi ecg self) (\<lambda>ecg_roi self.
           and_then (extract_roi t self) (\<lambda>t_roi self.
           and_then (roi_preprocess L do_detrend filt_mode ppg_roi ecg_roi self)
             (\<lambda>(ecg_f, ppg_f) self. roi_metrics L t_roi ecg_f ppg_f self))))) = self"
      by (intro and_then_frame)
         (auto simp: extract_roi_frame roi_preprocess_frame roi_metrics_frame split: prod.split)
    then show ?thesis using False by (simp add: analyze_roi_def)
  qed
  then show ?thesis by simp
qed

section \<open>Analysis of a ROI in which no peak is detected\<close>

text \<open>An outcome is determined by its value and the analyzer it leaves.\<close>

lemma outcome_eqI: "fst m = r \<Longrightarrow> snd m = s \<Longrightarrow> m = (r, s)"
  by auto

lemma and_then_Inr: "and_then (Inr v, s) f = f v s"
  by (simp add: and_then_def)

lemma and_then_Inl: "and_then (Inl e, s) f = (Inl e, s)"
  by (simp add: and_then_def)

text \<open>With a length-preserving library the conditioned segments have the lengths of the
  extracted ones.\<close>

lemma roi_detrend_length:
  assumes "length_preserving L"
    and "fst (roi_detrend L do_detrend ppg_roi ecg_roi self) = Inr (p, e)"
  shows "length p = length ppg_roi \<and> length e = length ecg_roi"
proof (cases do_detrend)
  case False
  with assms(2) show ?thesis by (simp add: roi_detrend_def)
next
  case True
  show ?thesis
  proof (cases "sp_detrend L ppg_roi")
    case (Inl err)
    with True assms(2) show ?thesis
      by (simp add: roi_detrend_def detrend_def and_then_Inl)
  next
    case p': (Inr p')
    show ?thesis
    proof (cases "sp_detrend L ecg_roi")
      case (Inl err)
      with True p' assms(2) show ?thesis
        by (simp add: roi_detrend_def detrend_def and_then_Inl and_then_Inr)
    next
      case e': (Inr e')
      from True p' e' assms(2) have "p = p'" "e = e'"
        by (simp_all add: roi_detrend_def detrend_def and_then_Inr)
      with p' e' assms(1) show ?thesis
        by (simp add: length_preserving_def)
    qed
  qed
qed

lemma bandpass_cases:
  obtains err where "bandpass L x low high order self = (Inl err, self)"
  | y where "bandpass L x low high order self = (Inr y, self)"
      and "length_preserving L \<longrightarrow> length y = length x"
proof (cases "0.5 * sampling_rate self = 0")
  case True
  then have "bandpass L x low high order self = (Inl ZeroDivisionError, self)"
    by (simp add: bandpass_def)
  then show ?thesis by (rule that(1))
next
  case False
  let ?r = "butter_filtfilt L order (low / (0.5 * sampling_rate self))
              (high / (0.5 * sampling_rate self)) x"
  from False have b: "bandpass L x low high order self = (?r, self)"
    by (simp add: bandpass_def Let_def)
  show ?thesis
  proof (cases ?r)
    case (Inl err)
    with b have "bandpass L x low high order self = (Inl err, self)" by simp
    then show ?thesis by (rule that(1))
  next
    case (Inr y)
    with b have 1: "bandpass L x low high order self = (Inr y, self)" by simp
    from Inr have 2: "length_preserving L \<longrightarrow> length y = length x"
      unfolding length_preserving_def by blast
    from 1 2 show ?thesis by (rule that(2))
  qed
qed

lemma roi_filter_length:
  assumes lp: "length_preserving L"
    and r: "fst (roi_filter L filt_mode p e self) = Inr (ecg_f, ppg_f)"
  shows "length ecg_f = length e \<and> length ppg_f = length p"
proof -
  consider (both) "filt_mode = ''default'' \<or> filt_mode = ''ppg_ecg''"
    | (ppg) "\<not> (filt_mode = ''default'' \<or> filt_mode = ''ppg_ecg'')" "filt_mode = ''ppg_only''"
    | (none) "\<not> (filt_mode = ''default'' \<or> filt_mode = ''ppg_ecg'')" "filt_mode \<noteq> ''ppg_only''"
    by blast
  then show ?thesis
  proof cases
    case both
    then have eq: "roi_filter L filt_mode p e self =
        and_then (bandpass L e 5.0 15.0 4 self) (\<lambda>ecg_f self.
        and_then (bandpass L p 0.5 5.0 4 self) (\<lambda>ppg_f self. (Inr (ecg_f, ppg_f), self)))"
      unfolding roi_filter_def by (simp only: if_True simp_thms)
    show ?thesis
    proof (cases rule: bandpass_cases [of L e "5.0" "15.0" 4 self])
      case (1 err)
      from r show ?thesis unfolding eq 1 and_then_Inl by simp
    next
      case e': (2 y)
      show ?thesis
      proof (cases rule: bandpass_cases [of L p "0.5" "5.0" 4 self])
        case (1 err)
        from r show ?thesis unfolding eq e'(1) and_then_Inr 1 and_then_Inl by simp
      next
        case p': (2 z)
        from r have "ecg_f = y \<and> ppg_f = z"
          unfolding eq e'(1) and_then_Inr p'(1) by simp
        with e'(2) p'(2) lp show ?thesis by simp
      qed
    qed
  next
    case ppg
    then have eq: "roi_filter L filt_mode p e self =
        and_then (bandpass L p 0.5 5.0 4 self) (\<lambda>ppg_f self. (Inr (e, ppg_f), self))"
      unfolding roi_filter_def by (simp only: if_True if_False simp_thms)
    show ?thesis
    proof (cases rule: bandpass_cases [of L p "0.5" "5.0" 4 self])
      case (1 err)
      from r show ?thesis unfolding eq 1 and_then_Inl by simp
    next
      case p': (2 z)
      from r have "ecg_f = e \<and> ppg_f = z"
        unfolding eq p'(1) and_then_Inr by simp
      with p'(2) lp show ?thesis by simp
    qed
  next
    case none
    then have "roi_filter L filt_mode p e self = (Inr (e, p), self)"
      unfolding roi_filter_def by (simp only: if_False if_cancel simp_thms)
    with r show ?thesis by simp
  qed
qed

lemma roi_preprocess_length:
  assumes lp: "length_preserving L"
    and r: "fst (roi_preprocess L do_detrend filt_mode ppg_roi ecg_roi self) = Inr (ecg_f, ppg_f)"
  shows "length ecg_f = length ecg_roi \<and> length ppg_f = length ppg_roi"
proof (cases "fst (roi_detrend L do_detrend ppg_roi ecg_roi self)")
  case (Inl err)
  then have "roi_detrend L do_detrend ppg_roi ecg_roi self = (Inl err, self)"
    by (rule outcome_eqI) (rule roi_detrend_frame)
  with r show ?thesis unfolding roi_preprocess_def by (simp add: and_then_Inl)
next
  case (Inr u)
  obtain p e where u: "u = (p, e)" by (cases u)
  from Inr u have d: "fst (roi_detrend L do_detrend ppg_roi ecg_roi self) = Inr (p, e)" by simp
  then have d': "roi_detrend L do_detrend ppg_roi ecg_roi self = (Inr (p, e), self)"
    by (rule outcome_eqI) (rule roi_detrend_frame)
  from r have "fst (roi_filter L filt_mode p e self) = Inr (ecg_f, ppg_f)"
    unfolding roi_preprocess_def d' and_then_Inr by simp
  from roi_filter_length [OF lp this] roi_detrend_length [OF lp d]
  show ?thesis by simp
qed

text \<open>On non-empty segments the correlation delay and the quality indices are computed
  without an exception; heart-rate and transit-time statistics never raise.\<close>

lemma np_argmax_returns: "xs \<noteq> [] \<Longrightarrow> \<exists>k. np_argmax xs = Inr k"
  by (cases xs) (simp_all add: np_argmax_def)

lemma np_correlate_full_returns:
  assumes "a \<noteq> []" "v \<noteq> []"
  shows "\<exists>c. np_correlate_full a v = Inr c \<and> c \<noteq> []"
proof -
  from assms have "0 < length a + length v - 1"
    by (cases a; cases v) simp_all
  then have "[0..<length a + length v - 1] \<noteq> []" by simp
  with assms show ?thesis by (simp add: np_correlate_full_def)
qed

lemma zscore_returns:
  "\<exists>z. zscore x self = (Inr z, self) \<and> length z = length x"
  by (simp add: zscore_def zscore_with_def Let_def)

lemma delay_by_xcorr_returns:
  assumes "x \<noteq> []" "y \<noteq> []"
  shows "\<exists>d. delay_by_xcorr x y self = (Inr d, self)"
proof -
  obtain x0 where x0: "zscore x self = (Inr x0, self)" "length x0 = length x"
    using zscore_returns by blast
  obtain y0 where y0: "zscore y self = (Inr y0, self)" "length y0 = length y"
    using zscore_returns by blast
  from x0(2) y0(2) assms have "y0 \<noteq> []" "x0 \<noteq> []" by auto
  then obtain c where c: "np_correlate_full y0 x0 = Inr c" "c \<noteq> []"
    using np_correlate_full_returns by blast
  then obtain k where k: "np_argmax c = Inr k"
    using np_argmax_returns by blast
  show ?thesis
    unfolding delay_by_xcorr_def x0(1) and_then_Inr y0(1) c(1) sum.case k
    by (simp add: Let_def)
qed

lemma compute_hr_returns:
  "\<exists>h m s. compute_hr peaks self = (Inr (h, m, s), self) \<and>
     (length peaks < 2 \<longrightarrow> h = None \<and> m = None \<and> s = None)"
  by (simp add: compute_hr_def Let_def)

lemma map_ptt_returns:
  "\<exists>arr. map_ptt r_idx ppg_pk self = (Inr arr, self) \<and>
     (r_idx = [] \<or> ppg_pk = [] \<longrightarrow> arr = [])"
  by (auto simp: map_ptt_def)

lemma compute_sqi_returns:
  assumes "x \<noteq> []"
  shows "\<exists>q. compute_sqi x self = (Inr q, self) \<and>
           dom q = {''saturation'', ''flatness'', ''snr_like''}"
proof -
  let ?q = "[''saturation'' \<mapsto>
           real (length (filter
             (\<lambda>v. Max (set x) - 0.01 * (Max (set x) - Min (set x) + 1 / 10 ^ 9) < v \<or>
                  v < Min (set x) + 0.01 * (Max (set x) - Min (set x) + 1 / 10 ^ 9)) x))
           / real (length x),
         ''flatness'' \<mapsto>
           real (length (filter (\<lambda>d. \<bar>d\<bar> < 1 / 10 ^ 4) (np_diff x))) / real (length (np_diff x)),
         ''snr_like'' \<mapsto> np_var x / (np_mean (map abs (np_diff x)) + 1 / 10 ^ 9)]"
  have "fst (compute_sqi x self) = Inr ?q" by (rule compute_sqi_nonempty [OF assms])
  then have "compute_sqi x self = (Inr ?q, self)"
    by (rule outcome_eqI) (rule compute_sqi_frame)
  moreover have "dom ?q = {''saturation'', ''flatness'', ''snr_like''}" by (rule sqi_dict_dom)
  ultimately show ?thesis by (intro exI [of _ ?q] conjI)
qed

lemma roi_metrics_returns:
  assumes r: "detect_ecg_rpeaks L ecg_f self = (Inr r_idx, self)"
    and p: "detect_ppg_peaks L ppg_f self = (Inr ppg_pk, self)"
    and ne: "ecg_f \<noteq> []" "ppg_f \<noteq> []"
  shows "\<exists>res. fst (roi_metrics L t_roi ecg_f ppg_f self) = Inr res \<and>
           (length r_idx < 2 \<longrightarrow> hr_bpm res = None \<and> rr_mean_s res = None \<and> rr_sd_s res = None) \<and>
           (r_idx = [] \<or> ppg_pk = [] \<longrightarrow> ptt_mean_s res = None \<and> ptt_sd_s res = None) \<and>
           delay_xcorr_s res \<noteq> None \<and>
           dom (sqi res) = {''saturation'', ''flatness'', ''snr_like''}"
proof -
  obtain h m s where hr: "compute_hr r_idx self = (Inr (h, m, s), self)"
    and hr0: "length r_idx < 2 \<longrightarrow> h = None \<and> m = None \<and> s = None"
    using compute_hr_returns by blast
  obtain arr where ptt: "map_ptt r_idx ppg_pk self = (Inr arr, self)"
    and ptt0: "r_idx = [] \<or> ppg_pk = [] \<longrightarrow> arr = []"
    using map_ptt_returns by blast
  define ppg_cut where "ppg_cut = take (min (length ppg_f) (length ecg_f)) ppg_f"
  define ecg_cut where "ecg_cut = take (min (length ppg_f) (length ecg_f)) ecg_f"
  have al: "align_signals ppg_f ecg_f self = (Inr (ppg_cut, ecg_cut), self)"
    by (simp add: align_signals_def Let_def ppg_cut_def ecg_cut_def)
  from ne have cut: "ecg_cut \<noteq> []" "ppg_cut \<noteq> []"
    by (cases ecg_f; cases ppg_f; simp add: ppg_cut_def ecg_cut_def)+
  obtain d where dl: "delay_by_xcorr ecg_cut ppg_cut self = (Inr d, self)"
    using delay_by_xcorr_returns [OF cut] by blast
  obtain q where sq: "compute_sqi ppg_f self = (Inr q, self)"
    and dq: "dom q = {''saturation'', ''flatness'', ''snr_like''}"
    using compute_sqi_returns [OF ne(2)] by blast
  let ?res = "\<lparr>start_s = the (roi_start self), end_s = the (roi_end self),
               n_samples = length t_roi, fs = sampling_rate self,
               hr_bpm = h, rr_mean_s = m, rr_sd_s = s,
               ptt_mean_s = fst (ptt_stats arr), ptt_sd_s = snd (ptt_stats arr),
               delay_xcorr_s = Some d, sqi = q\<rparr>"
  have "roi_metrics L t_roi ecg_f ppg_f self = (Inr ?res, self)"
    unfolding roi_metrics_def r and_then_Inr p hr prod.case ptt al dl sq ..
  then have e: "fst (roi_metrics L t_roi ecg_f ppg_f self) = Inr ?res"
    by (rule arg_cong [where f = fst, THEN trans]) (rule fst_conv)
  have 1: "length r_idx < 2 \<longrightarrow> hr_bpm ?res = None \<and> rr_mean_s ?res = None \<and> rr_sd_s ?res = None"
    using hr0 by simp
  have 2: "r_idx = [] \<or> ppg_pk = [] \<longrightarrow> ptt_mean_s ?res = None \<and> ptt_sd_s ?res = None"
    using ptt0 by (auto simp: ptt_stats_def)
  have 3: "delay_xcorr_s ?res \<noteq> None" by simp
  have 4: "dom (sqi ?res) = {''saturation'', ''flatness'', ''snr_like''}"
    using dq by simp
  show ?thesis by (rule exI [of _ ?res]) (intro conjI e 1 2 3 4)
qed

lemma extract_roi_returns:
  assumes "roi_start self \<noteq> None" "roi_end self \<noteq> None"
  shows "\<exists>seg. extract_roi signal self = (Inr seg, self)"
proof -
  from assms obtain a b where "roi_start self = Some a" "roi_end self = Some b" by auto
  then show ?thesis by (simp add: extract_roi_def Let_def)
qed

lemma extract_roi_configured:
  assumes "fst (extract_roi signal self) = Inr seg"
  shows "roi_start self \<noteq> None \<and> roi_end self \<noteq> None"
proof (rule ccontr)
  assume "\<not> (roi_start self \<noteq> None \<and> roi_end self \<noteq> None)"
  then have "roi_start self = None \<or> roi_end self = None" by simp
  then have "fst (extract_roi signal self) = Inl NoRoiConfigured"
    by (simp only: extract_roi_unset_iff)
  with assms show False by simp
qed

lemma analyze_roi_unfold:
  assumes e1: "extract_roi ppg self = (Inr ppg_roi, self)"
    and e2: "extract_roi ecg self = (Inr ecg_roi, self)"
    and e3: "extract_roi t self = (Inr t_roi, self)"
    and e4: "roi_preprocess L do_detrend filt_mode ppg_roi ecg_roi self = (Inr (ecg_f, ppg_f), self)"
    and conf: "roi_start self \<noteq> None \<and> roi_end self \<noteq> None"
  shows "analyze_roi L t ppg ecg do_detrend filt_mode self = roi_metrics L t_roi ecg_f ppg_f self"
proof -
  from conf have c: "(roi_start self = None \<or> roi_end self = None) = False" by simp
  show ?thesis
    unfolding analyze_roi_def c if_False e1 e2 e3 and_then_Inr e4 prod.case ..
qed

text \<open>An exception of a detector is propagated: the library routines are the only source
  of exceptions after the ROI has been extracted.\<close>

lemma roi_metrics_detector_raises:
  "detect_ecg_rpeaks L ecg_f self = (Inl err, self) \<Longrightarrow>
   roi_metrics L t_roi ecg_f ppg_f self = (Inl err, self)"
  by (simp add: roi_metrics_def and_then_Inl)

text \<open>
  C2.  Let the ROI be configured, the extracted PPG and ECG segments be non-empty, the
  conditioning (detrending, filtering) return normally and preserve lengths, and the two
  peak detectors return their peak lists.  Then \<^verbatim>\<open>analyze_roi\<close> returns a result, whatever
  the number of peaks: with fewer than two R-peaks the heart rate and both RR statistics
  are absent; with no R-peak or no PPG peak both PTT statistics are absent; the
  cross-correlation delay is present and the quality mapping has its three keys.
\<close>

theorem analyze_roi_zero_peaks:
  assumes ppg: "fst (extract_roi ppg self) = Inr ppg_roi"
    and ecg: "fst (extract_roi ecg self) = Inr ecg_roi"
    and ne: "ppg_roi \<noteq> []" "ecg_roi \<noteq> []"
    and lp: "length_preserving L"
    and pre: "fst (roi_preprocess L do_detrend filt_mode ppg_roi ecg_roi self) = Inr (ecg_f, ppg_f)"
    and r: "fst (detect_ecg_rpeaks L ecg_f self) = Inr r_idx"
    and p: "fst (detect_ppg_peaks L ppg_f self) = Inr ppg_pk"
  shows "\<exists>res. fst (analyze_roi L t ppg ecg do_detrend filt_mode self) = Inr res \<and>
           (length r_idx < 2 \<longrightarrow> hr_bpm res = None \<and> rr_mean_s res = None \<and> rr_sd_s res = None) \<and>
           (r_idx = [] \<or> ppg_pk = [] \<longrightarrow> ptt_mean_s res = None \<and> ptt_sd_s res = None) \<and>
           delay_xcorr_s res \<noteq> None \<and>
           dom (sqi res) = {''saturation'', ''flatness'', ''snr_like''}"
proof -
  have conf: "roi_start self \<noteq> None \<and> roi_end self \<noteq> None"
    using ppg by (rule extract_roi_configured)
  have e1: "extract_roi ppg self = (Inr ppg_roi, self)"
    using ppg by (rule outcome_eqI) (rule extract_roi_frame)
  have e2: "extract_roi ecg self = (Inr ecg_roi, self)"
    using ecg by (rule outcome_eqI) (rule extract_roi_frame)
  from conf have "\<exists>seg. extract_roi t self = (Inr seg, self)"
    by (intro extract_roi_returns) simp_all
  then obtain t_roi where e3: "extract_roi t self = (Inr t_roi, self)" ..
  have e4: "roi_preprocess L do_detrend filt_mode ppg_roi ecg_roi self = (Inr (ecg_f, ppg_f), self)"
    using pre by (rule outcome_eqI) (rule roi_preprocess_frame)
  have a: "analyze_roi L t ppg ecg do_detrend filt_mode self = roi_metrics L t_roi ecg_f ppg_f self"
    using e1 e2 e3 e4 conf by (rule analyze_roi_unfold)
  from roi_preprocess_length [OF lp pre] ne have nf: "ecg_f \<noteq> []" "ppg_f \<noteq> []" by auto
  have r': "detect_ecg_rpeaks L ecg_f self = (Inr r_idx, self)"
    using r by (rule outcome_eqI) (rule detect_ecg_rpeaks_frame)
  have p': "detect_ppg_peaks L ppg_f self = (Inr ppg_pk, self)"
    using p by (rule outcome_eqI) (rule detect_ppg_peaks_frame)
  show ?thesis
    unfolding a by (rule roi_metrics_returns [OF r' p' nf])
qed

lemma length_preserving_quiet: "length_preserving quiet_library"
  by (simp add: length_preserving_def quiet_library_def)

lemma detect_quiet:
  assumes "4 \<le> sampling_rate self"
  shows "fst (detect_ecg_rpeaks quiet_library x self) = Inr [] \<and>
         fst (detect_ppg_peaks quiet_library x self) = Inr []"
proof -
  obtain z where z: "zscore x self = (Inr z, self)" using zscore_returns by blast
  have "1 \<le> 0.25 * sampling_rate self" "1 \<le> 0.3 * sampling_rate self"
    using assms by simp_all
  then have d: "\<not> py_int (0.25 * sampling_rate self) < 1" "\<not> py_int (0.3 * sampling_rate self) < 1"
    by (simp_all add: py_int_def)
  show ?thesis
    unfolding detect_ecg_rpeaks_def detect_ppg_peaks_def z and_then_Inr
    using d by (simp add: quiet_library_def)
qed

lemma roi_preprocess_off:
  "fst (roi_preprocess L False ''off'' p e self) = Inr (e, p)"
  by (simp add: roi_preprocess_def roi_detrend_def roi_filter_def and_then_Inr)

theorem analyze_roi_zero_peaks_witness:
  "fst (extract_roi [1, 2, 4, 8 :: real] \<lparr>sampling_rate = 4, roi_start = Some 0, roi_end = Some (3 / 4)\<rparr>)
     = Inr [1, 2, 4] \<and>
   fst (extract_roi [3, 1, 2, 5 :: real] \<lparr>sampling_rate = 4, roi_start = Some 0, roi_end = Some (3 / 4)\<rparr>)
     = Inr [3, 1, 2] \<and>
   [1, 2, 4 :: real] \<noteq> [] \<and> [3, 1, 2 :: real] \<noteq> [] \<and>
   length_preserving quiet_library \<and>
   fst (roi_preprocess quiet_library False ''off'' [1, 2, 4] [3, 1, 2]
          \<lparr>sampling_rate = 4, roi_start = Some 0, roi_end = Some (3 / 4)\<rparr>) = Inr ([3, 1, 2], [1, 2, 4]) \<and>
   fst (detect_ecg_rpeaks quiet_library [3, 1, 2]
          \<lparr>sampling_rate = 4, roi_start = Some 0, roi_end = Some (3 / 4)\<rparr>) = Inr [] \<and>
   fst (detect_ppg_peaks quiet_library [1, 2, 4]
          \<lparr>sampling_rate = 4, roi_start = Some 0, roi_end = Some (3 / 4)\<rparr>) = Inr [] \<and>
   (\<exists>res. fst (analyze_roi quiet_library [0, 1 / 4, 1 / 2, 3 / 4] [1, 2, 4, 8] [3, 1, 2, 5] False ''off''
                 \<lparr>sampling_rate = 4, roi_start = Some 0, roi_end = Some (3 / 4)\<rparr>) = Inr res \<and>
          (length ([] :: int list) < 2 \<longrightarrow>
             hr_bpm res = None \<and> rr_mean_s res = None \<and> rr_sd_s res = None) \<and>
          (([] :: int list) = [] \<or> ([] :: int list) = [] \<longrightarrow>
             ptt_mean_s res = None \<and> ptt_sd_s res = None) \<and>
          delay_xcorr_s res \<noteq> None \<and>
          dom (sqi res) = {''saturation'', ''flatness'', ''snr_like''})"
proof -
  let ?self = "\<lparr>sampling_rate = 4, roi_start = Some 0, roi_end = Some (3 / 4)\<rparr>"
  have h1: "fst (extract_roi [1, 2, 4, 8 :: real] ?self) = Inr [1, 2, 4]"
    by (simp add: extract_roi_def Let_def py_int_def py_slice_def)
  have h2: "fst (extract_roi [3, 1, 2, 5 :: real] ?self) = Inr [3, 1, 2]"
    by (simp add: extract_roi_def Let_def py_int_def py_slice_def)
  have h3: "[1, 2, 4 :: real] \<noteq> []" and h3': "[3, 1, 2 :: real] \<noteq> []" by simp_all
  have h4: "fst (roi_preprocess quiet_library False ''off'' [1, 2, 4] [3, 1, 2] ?self)
            = Inr ([3, 1, 2], [1, 2, 4])"
    by (rule roi_preprocess_off)
  have h5: "fst (detect_ecg_rpeaks quiet_library [3, 1, 2] ?self) = Inr []"
    by (rule detect_quiet [THEN conjunct1]) simp
  have h6: "fst (detect_ppg_peaks quiet_library [1, 2, 4] ?self) = Inr []"
    by (rule detect_quiet [THEN conjunct2]) simp
  note c = analyze_roi_zero_peaks [OF h1 h2 h3 h3' length_preserving_quiet h4 h5 h6,
             of "[0, 1 / 4, 1 / 2, 3 / 4]"]
  show ?thesis
    by (intro conjI h1 h2 h3 h3' length_preserving_quiet h4 h5 h6 c)
qed

end
